theory Spec2Isabelle
  imports Main
begin

section \<open>Values exchanged with the bucket\<close>

text \<open>
  The Go code handles decoded JSON as \<^verbatim>\<open>interface{}\<close> values: \<^verbatim>\<open>nil\<close>, booleans,
  numbers, strings, \<^verbatim>\<open>[]interface{}\<close> and \<^verbatim>\<open>map[string]interface{}\<close>. A map is kept
  as an association list read with \<open>map_of\<close>; the payload of a number is never looked
  at by the code of this file.
\<close>

datatype json =
    JNull
  | JBool bool
  | JNum int
  | JStr string
  | JArr "json list"
  | JObj "(string \<times> json) list"

text \<open>
  A failed type assertion, an index out of range and a call through a nil interface
  are run-time panics in Go; they are results of the model.
\<close>

datatype panic = TypeAssertion | IndexOutOfRange | NilDereference

text \<open>
  Modelled from the spec: \<^verbatim>\<open>base.HTTPErrorf\<close> is declared outside this file; with the
  status 403 it builds the error that the spec calls Forbidden. \<open>HTTPError\<close> holds the
  status and the message. \<open>StoreError\<close> is an error handed back by the bucket or the query
  service: such errors are opaque here and are passed on as they are.
\<close>

datatype error =
    HTTPError nat string
  | StoreError string
  | Panic panic

definition StatusForbidden :: nat where
  "StatusForbidden = 403"

definition forbidden :: error where
  "forbidden = HTTPError StatusForbidden ''forbidden''"

text \<open>\<^verbatim>\<open>m[k]\<close> on a \<^verbatim>\<open>map[string]interface{}\<close>: \<^verbatim>\<open>nil\<close> for a key that is absent.\<close>

definition mapIndex :: "(string \<times> json) list \<Rightarrow> string \<Rightarrow> json" where
  "mapIndex m k = (case map_of m k of None \<Rightarrow> JNull | Some v \<Rightarrow> v)"

text \<open>The builtin \<^verbatim>\<open>delete(m, k)\<close>.\<close>

definition mapDelete :: "string \<Rightarrow> (string \<times> json) list \<Rightarrow> (string \<times> json) list" where
  "mapDelete k m = filter (\<lambda>kv. fst kv \<noteq> k) m"

text \<open>\<^verbatim>\<open>strings.HasPrefix\<close>.\<close>

definition HasPrefix :: "string \<Rightarrow> string \<Rightarrow> bool" where
  "HasPrefix s pre = (length pre \<le> length s \<and> take (length pre) s = pre)"

subsection \<open>Channel sets and users\<close>

text \<open>
  Modelled from the spec: the type \<^verbatim>\<open>channels.TimedSet\<close> and the interface \<^verbatim>\<open>auth.User\<close>
  are declared outside this file. The spec describes the channel set as a queryable set
  of channel identifiers with a membership test, in which the wildcard \<^verbatim>\<open>"*"\<close> is an
  ordinary member; of a user only \<^verbatim>\<open>InheritedChannels()\<close> is called.
\<close>

type_synonym TimedSet = "string set"

definition Contains :: "TimedSet \<Rightarrow> string \<Rightarrow> bool" where
  "Contains visibleChannels ch = (ch \<in> visibleChannels)"

record User =
  InheritedChannels :: TimedSet

subsection \<open>View rows and results\<close>

text \<open>
  Modelled from the spec: \<^verbatim>\<open>sgbucket.ViewRow\<close> and \<^verbatim>\<open>sgbucket.ViewResult\<close> are declared
  outside this file. The spec describes a raw row as a record with key, value, document
  id and optionally the full document, and a result as the rows with the total row
  count of the store. These are the fields the code reads and writes. \<open>Doc\<close> is a
  pointer to an \<^verbatim>\<open>interface{}\<close>: \<open>None\<close> is the nil pointer.
\<close>

record ViewRow =
  ID :: string
  Key :: json
  Value :: json
  Doc :: "json option"

record ViewResult =
  TotalRows :: int
  Rows :: "ViewRow list"

section \<open>The result filter\<close>

text \<open>
  \<^verbatim>\<open>channelsIntersect\<close>: the loop returns at the first channel that is visible or is the
  wildcard; \<^verbatim>\<open>channel.(string)\<close> panics on an item that is not a string.
\<close>

fun channelsIntersect :: "TimedSet \<Rightarrow> json list \<Rightarrow> error + bool" where
  "channelsIntersect visibleChannels [] = Inr False"
| "channelsIntersect visibleChannels (channel # channels) =
     (case channel of
        JStr s \<Rightarrow>
          if Contains visibleChannels s \<or> channel = JStr ''*'' then Inr True
          else channelsIntersect visibleChannels channels
      | _ \<Rightarrow> Inl (Panic TypeAssertion))"

text \<open>
  \<^verbatim>\<open>stripSyncProperty\<close> deletes the key \<^verbatim>\<open>"_sync"\<close> from the row's document in place; the
  row is returned with the document as it is after the call.
\<close>

definition stripSyncProperty :: "ViewRow \<Rightarrow> error + ViewRow" where
  "stripSyncProperty row =
     (case Doc row of
        None \<Rightarrow> Inr row
      | Some (JObj m) \<Rightarrow> Inr (row\<lparr>Doc := Some (JObj (mapDelete ''_sync'' m))\<rparr>)
      | Some _ \<Rightarrow> Inl (Panic TypeAssertion))"

text \<open>
  The body of the loop of \<^verbatim>\<open>filterViewResult\<close> for one row when \<open>reduce\<close> is false:
  \<open>Inr None\<close> when the row is skipped, \<open>Inr (Some r)\<close> when \<open>r\<close> is appended.
  \<^verbatim>\<open>value[0]\<close> is only read when channels are checked, and \<^verbatim>\<open>value[1]\<close> only for a row
  that is added, after \<^verbatim>\<open>stripSyncProperty\<close>.
\<close>

definition filterViewRow :: "bool \<Rightarrow> TimedSet \<Rightarrow> ViewRow \<Rightarrow> error + ViewRow option" where
  "filterViewRow checkChannels visibleChannels row =
     (case Value row of
        JArr val \<Rightarrow>
          (case (if \<not> checkChannels then Inr True
                 else (case val of
                         [] \<Rightarrow> Inl (Panic IndexOutOfRange)
                       | JArr channels # _ \<Rightarrow> channelsIntersect visibleChannels channels
                       | _ # _ \<Rightarrow> Inl (Panic TypeAssertion))) of
             Inl e \<Rightarrow> Inl e
           | Inr visible \<Rightarrow>
               if visible then
                 (case stripSyncProperty row of
                    Inl e \<Rightarrow> Inl e
                  | Inr row' \<Rightarrow>
                      (case val of
                         _ # v1 # _ \<Rightarrow>
                           Inr (Some \<lparr>ID = ID row', Key = Key row', Value = v1, Doc = Doc row'\<rparr>)
                       | _ \<Rightarrow> Inl (Panic IndexOutOfRange)))
               else Inr None)
      | _ \<Rightarrow> Inl (Panic TypeAssertion))"

text \<open>The loop over \<^verbatim>\<open>input.Rows\<close>, with \<^verbatim>\<open>result.Rows\<close> as the accumulator.\<close>

fun filterViewRows ::
  "bool \<Rightarrow> bool \<Rightarrow> TimedSet \<Rightarrow> ViewRow list \<Rightarrow> ViewRow list \<Rightarrow> error + ViewRow list" where
  "filterViewRows reduce checkChannels visibleChannels [] out = Inr out"
| "filterViewRows reduce checkChannels visibleChannels (row # rows) out =
     (if reduce then
        filterViewRows reduce checkChannels visibleChannels rows
          (out @ [\<lparr>ID = ID row, Key = Key row, Value = Value row, Doc = None\<rparr>])
      else
        (case filterViewRow checkChannels visibleChannels row of
           Inl e \<Rightarrow> Inl e
         | Inr None \<Rightarrow> filterViewRows reduce checkChannels visibleChannels rows out
         | Inr (Some r) \<Rightarrow> filterViewRows reduce checkChannels visibleChannels rows (out @ [r])))"

text \<open>
  \<^verbatim>\<open>filterViewResult\<close>. With a user and \<open>reduce\<close> the function returns its zero-valued
  result at once (the source marks the line ``this is an error'').
\<close>

definition filterViewResult :: "ViewResult \<Rightarrow> User option \<Rightarrow> bool \<Rightarrow> error + ViewResult" where
  "filterViewResult input user reduce =
     (let visibleChannels = (case user of None \<Rightarrow> {} | Some u \<Rightarrow> InheritedChannels u);
          checkChannels = (case user of None \<Rightarrow> False
                           | Some u \<Rightarrow> \<not> Contains (InheritedChannels u) ''*'')
      in if user \<noteq> None \<and> reduce then Inr \<lparr>TotalRows = 0, Rows = []\<rparr>
         else (case filterViewRows reduce checkChannels visibleChannels (Rows input) [] of
                 Inl e \<Rightarrow> Inl e
               | Inr rows \<Rightarrow> Inr \<lparr>TotalRows = TotalRows input, Rows = rows\<rparr>))"

section \<open>Design documents\<close>

text \<open>
  Modelled from the spec: \<^verbatim>\<open>sgbucket.DesignDoc\<close> is declared outside this file. The spec
  describes it as a name-keyed mapping from view name to a view with the source text of
  its map function, and options with a \<^verbatim>\<open>raw\<close> flag. \<open>Options\<close> is a pointer, \<open>None\<close>
  when nil. \<open>Reduce\<close> and \<open>Language\<close> stand for the fields that the code carries along
  untouched.

  \<open>Views\<close> is a Go map: the struct holds a reference to it, and a copy of the struct
  shares the map with the original. The maps live in a heap of their own, which gives
  the entries of the map behind each reference; \<open>Views = None\<close> is the nil map.
\<close>

record ViewDef =
  Map :: string
  Reduce :: string

record DesignDocOptions =
  Raw :: bool

type_synonym ViewMap = "(string \<times> ViewDef) list"

type_synonym mapRef = nat

type_synonym mapHeap = "mapRef \<Rightarrow> ViewMap"

record DesignDoc =
  Language :: string
  Views :: "mapRef option"
  Options :: "DesignDocOptions option"

definition tab :: char where
  "tab = CHR 0x09"

definition newline :: char where
  "newline = CHR 0x0A"

text \<open>The two halves of the raw string literal that \<^verbatim>\<open>wrapViews\<close> puts around \<^verbatim>\<open>view.Map\<close>.\<close>

definition wrapperPrefix :: string where
  \<open>wrapperPrefix =
     ''function(doc,meta) {'' @ [newline] @
     replicate 1 tab @ ''                    var sync = doc._sync;'' @ [newline] @
     replicate 1 tab @ ''                    if (sync === undefined || meta.id.substring(0,6) == "_sync:")'' @ [newline] @
     replicate 1 tab @ ''                      return;'' @ [newline] @
     replicate 1 tab @ ''                    if ((sync.flags & 1) || sync.deleted)'' @ [newline] @
     replicate 1 tab @ ''                      return;'' @ [newline] @
     replicate 1 tab @ ''                    var channels = [];'' @ [newline] @
     replicate 1 tab @ ''                    var channelMap = sync.channels;'' @ [newline] @
     replicate 6 tab @ ''if (channelMap) {'' @ [newline] @
     replicate 7 tab @ ''for (var name in channelMap) {'' @ [newline] @
     replicate 8 tab @ ''removed = channelMap[name];'' @ [newline] @
     replicate 8 tab @ ''if (!removed)'' @ [newline] @
     replicate 9 tab @ ''channels.push(name);'' @ [newline] @
     replicate 7 tab @ ''}'' @ [newline] @
     replicate 6 tab @ ''}'' @ [newline] @
     replicate 1 tab @ ''                    delete doc._sync;'' @ [newline] @
     replicate 1 tab @ ''                    meta.rev = sync.rev;'' @ [newline] @
     replicate 1 tab @ ''                    meta.channels = channels;'' @ [newline] @
     [newline] @
     replicate 1 tab @ ''                    var _emit = emit;'' @ [newline] @
     replicate 1 tab @ ''                    (function(){'' @ [newline] @
     replicate 2 tab @ ''                    var emit = function(key,value) {'' @ [newline] @
     replicate 2 tab @ ''                    '' @ [tab] @ ''_emit(key,[channels, value]);'' @ [newline] @
     replicate 2 tab @ ''                    };'' @ [newline] @
     replicate 7 tab @ ''(''\<close>

definition wrapperSuffix :: string where
  \<open>wrapperSuffix =
     '') (doc, meta);'' @ [newline] @
     replicate 6 tab @ ''}());'' @ [newline] @
     replicate 6 tab @ ''doc._sync = sync;'' @ [newline] @
     replicate 5 tab @ ''}''\<close>

text \<open>
  \<^verbatim>\<open>wrapViews\<close>: every entry of the map is read, its \<open>Map\<close> replaced, and written back
  under the same name into the map itself. Each entry is rewritten on its own, so the
  order in which Go ranges over the map does not matter. The struct behind the pointer is
  not assigned to. Ranging over the nil map does nothing.
\<close>

definition wrapView :: "ViewDef \<Rightarrow> ViewDef" where
  "wrapView view = view\<lparr>Map := wrapperPrefix @ Map view @ wrapperSuffix\<rparr>"

definition wrapViews :: "DesignDoc \<Rightarrow> mapHeap \<Rightarrow> mapHeap" where
  "wrapViews ddoc h =
     (case Views ddoc of
        None \<Rightarrow> h
      | Some r \<Rightarrow> h(r := map (\<lambda>(name, view). (name, wrapView view)) (h r)))"

section \<open>The database and its bucket\<close>

text \<open>
  The bucket and the query service are outside this file: their operations are
  parameters. \<open>'s\<close> is the state of the bucket; an operation that writes returns the
  state after it. Their errors are opaque strings. \<^verbatim>\<open>GetDDoc\<close> fills the \<^verbatim>\<open>interface{}\<close>
  that it is given: the value it decodes is its result here. \<^verbatim>\<open>PutDDoc\<close> reads the views
  of the document through the heap.

  \<^verbatim>\<open>ExecuteN1qlQuery\<close> returns a pair (rows, error) as in Go; \<open>None\<close> for rows is the nil
  interface. The row cursor is the list of the rows that \<^verbatim>\<open>Next\<close> yields, each decoded
  into a \<^verbatim>\<open>map[string]interface{}\<close>; \<^verbatim>\<open>Close\<close> has no effect on the result.
\<close>

record 's Bucket =
  GetDDoc :: "string \<Rightarrow> 's \<Rightarrow> string + json"
  PutDDoc :: "string \<Rightarrow> DesignDoc \<Rightarrow> mapHeap \<Rightarrow> 's \<Rightarrow> string option \<times> 's"
  DeleteDDoc :: "string \<Rightarrow> 's \<Rightarrow> string option \<times> 's"
  View :: "string \<Rightarrow> string \<Rightarrow> (string \<times> json) list \<Rightarrow> 's \<Rightarrow> string + ViewResult"

type_synonym N1qlRow = "(string \<times> json) list"

record N1QLConn =
  ExecuteN1qlQuery :: "string option \<Rightarrow> N1qlRow list option \<times> string option"

text \<open>
  \<open>user = None\<close> is the nil user: the caller is an administrator. \<open>N1QLQueries\<close> gives
  the text of a named query and \<open>N1QLStatements\<close> its prepared statement, for which a
  string stands here; a name that is missing yields the nil statement.
\<close>

record 's Database =
  user :: "User option"
  Bucket :: "'s Bucket"
  N1QLQueries :: "(string \<times> string) list"
  N1QLStatements :: "(string \<times> string) list"
  N1QLConnection :: N1QLConn

record N1QLResult =
  N1QLRows :: "N1qlRow list"

section \<open>The access gate and the management operations\<close>

definition isInternalDDoc :: "string \<Rightarrow> bool" where
  "isInternalDDoc ddocName = HasPrefix ddocName ''sync_''"

definition checkDDocAccess :: "'s Database \<Rightarrow> string \<Rightarrow> error option" where
  "checkDDocAccess db ddocName =
     (if user db \<noteq> None \<or> isInternalDDoc ddocName then Some forbidden else None)"

definition GetDesignDoc :: "'s Database \<Rightarrow> string \<Rightarrow> 's \<Rightarrow> error + json" where
  "GetDesignDoc db ddocName s =
     (case checkDDocAccess db ddocName of
        Some err \<Rightarrow> Inl err
      | None \<Rightarrow>
          (case GetDDoc (Bucket db) ddocName s of
             Inl e \<Rightarrow> Inl (StoreError e)
           | Inr ddoc \<Rightarrow> Inr ddoc))"

text \<open>
  \<^verbatim>\<open>PutDesignDoc\<close> receives the struct by value, but \<^verbatim>\<open>wrapViews\<close> writes through the
  \<open>Views\<close> reference that the copy shares with the caller's document. The outcome holds
  the error, the heap of maps after the call and the bucket after the call.
\<close>

record 's PutOutcome =
  putError :: "error option"
  heapAfter :: mapHeap
  bucketAfter :: 's

definition PutDesignDoc ::
  "'s Database \<Rightarrow> string \<Rightarrow> DesignDoc \<Rightarrow> mapHeap \<Rightarrow> 's \<Rightarrow> 's PutOutcome" where
  "PutDesignDoc db ddocName ddoc h s =
     (let wrap = (case Options ddoc of None \<Rightarrow> True | Some opts \<Rightarrow> \<not> Raw opts);
          h' = (if wrap then wrapViews ddoc h else h)
      in case checkDDocAccess db ddocName of
           Some err \<Rightarrow> \<lparr>putError = Some err, heapAfter = h', bucketAfter = s\<rparr>
         | None \<Rightarrow>
             (case PutDDoc (Bucket db) ddocName ddoc h' s of
                (e, s') \<Rightarrow>
                  \<lparr>putError = map_option StoreError e, heapAfter = h', bucketAfter = s'\<rparr>))"

definition DeleteDesignDoc :: "'s Database \<Rightarrow> string \<Rightarrow> 's \<Rightarrow> error option \<times> 's" where
  "DeleteDesignDoc db ddocName s =
     (case checkDDocAccess db ddocName of
        Some err \<Rightarrow> (Some err, s)
      | None \<Rightarrow>
          (case DeleteDDoc (Bucket db) ddocName s of
             (e, s') \<Rightarrow> (map_option StoreError e, s')))"

section \<open>Querying a view\<close>

text \<open>The loop of \<^verbatim>\<open>QueryDesignDoc\<close> that strips every row of an internal view.\<close>

fun stripSyncRows :: "ViewRow list \<Rightarrow> error + ViewRow list" where
  "stripSyncRows [] = Inr []"
| "stripSyncRows (row # rows) =
     (case stripSyncProperty row of
        Inl e \<Rightarrow> Inl e
      | Inr row' \<Rightarrow>
          (case stripSyncRows rows of
             Inl e \<Rightarrow> Inl e
           | Inr rows' \<Rightarrow> Inr (row' # rows')))"

definition QueryDesignDoc ::
  "'s Database \<Rightarrow> string \<Rightarrow> string \<Rightarrow> (string \<times> json) list \<Rightarrow> 's \<Rightarrow> error + ViewResult" where
  "QueryDesignDoc db ddocName viewName options s =
     (if user db \<noteq> None \<and> isInternalDDoc ddocName then Inl forbidden
      else
        (case View (Bucket db) ddocName viewName options s of
           Inl err \<Rightarrow> Inl (StoreError err)
         | Inr result \<Rightarrow>
             if isInternalDDoc ddocName then
               (if mapIndex options ''include_docs'' = JBool True then
                  (case stripSyncRows (Rows result) of
                     Inl e \<Rightarrow> Inl e
                   | Inr rows \<Rightarrow> Inr (result\<lparr>Rows := rows\<rparr>))
                else Inr result)
             else filterViewResult result (user db) (mapIndex options ''reduce'' = JBool True)))"

section \<open>Named N1QL queries\<close>

text \<open>\<^verbatim>\<open>db.N1QLQueries[queryName]\<close>: the empty string for a name that is not registered.\<close>

definition queryText :: "(string \<times> string) list \<Rightarrow> string \<Rightarrow> string" where
  "queryText queries queryName = (case map_of queries queryName of None \<Rightarrow> [] | Some q \<Rightarrow> q)"

text \<open>
  The inner loop over the keys of \<^verbatim>\<open>docChannels\<close>: the keys whose status is nil, as
  \<^verbatim>\<open>interface{}\<close> values.
\<close>

definition docChannelsList :: "(string \<times> json) list \<Rightarrow> json list" where
  "docChannelsList docChannels =
     map JStr (filter (\<lambda>k. mapIndex docChannels k = JNull) (map fst docChannels))"

text \<open>The loop over the cursor, with \<^verbatim>\<open>vres.Rows\<close> as the accumulator.\<close>

fun scanRows ::
  "bool \<Rightarrow> TimedSet \<Rightarrow> N1qlRow list \<Rightarrow> N1qlRow list \<Rightarrow> error + N1qlRow list" where
  "scanRows checkChannels visibleChannels [] out = Inr out"
| "scanRows checkChannels visibleChannels (row # rows) out =
     (if checkChannels then
        (case mapIndex row ''_channels'' of
           JNull \<Rightarrow> scanRows checkChannels visibleChannels rows out
         | JObj docChannels \<Rightarrow>
             (case channelsIntersect visibleChannels (docChannelsList docChannels) of
                Inl e \<Rightarrow> Inl e
              | Inr visible \<Rightarrow>
                  if visible then scanRows checkChannels visibleChannels rows (out @ [row])
                  else scanRows checkChannels visibleChannels rows out)
         | _ \<Rightarrow> Inl (Panic TypeAssertion))
      else scanRows checkChannels visibleChannels rows (out @ [row]))"

definition channelProjection :: string where
  "channelProjection = ''SELECT _sync.channels as _channels,''"

text \<open>
  \<^verbatim>\<open>N1QLQuery\<close>. The error returned by \<^verbatim>\<open>ExecuteN1qlQuery\<close> is assigned to the blank
  identifier; \<^verbatim>\<open>rows.Next\<close> on a nil \<open>rows\<close> is a nil dereference. The parameter
  \<open>options\<close> is not used by the source.
\<close>

definition N1QLQuery ::
  "'s Database \<Rightarrow> string \<Rightarrow> (string \<times> json) list \<Rightarrow> error + N1QLResult" where
  "N1QLQuery db queryName options =
     (let queryString = queryText (N1QLQueries db) queryName in
      if queryString \<noteq> [] then
        (let hasMeta = HasPrefix queryString channelProjection;
             query = map_of (N1QLStatements db) queryName;
             visibleChannels = (case user db of None \<Rightarrow> {} | Some u \<Rightarrow> InheritedChannels u);
             checkChannels = (case user db of None \<Rightarrow> False
                              | Some u \<Rightarrow> \<not> Contains (InheritedChannels u) ''*'')
         in if checkChannels \<and> \<not> hasMeta then Inl forbidden
            else
              (case fst (ExecuteN1qlQuery (N1QLConnection db) query) of
                 None \<Rightarrow> Inl (Panic NilDereference)
               | Some rows \<Rightarrow>
                   (case scanRows checkChannels visibleChannels rows [] of
                      Inl e \<Rightarrow> Inl e
                    | Inr out \<Rightarrow> Inr \<lparr>N1QLRows = out\<rparr>)))
      else Inr \<lparr>N1QLRows = []\<rparr>)"

section \<open>Vocabulary of the properties\<close>

text \<open>
  The definitions of this section do not model code: they name what the properties
  below talk about.
\<close>

definition isStr :: "json \<Rightarrow> bool" where
  "isStr j = (case j of JStr _ \<Rightarrow> True | _ \<Rightarrow> False)"

fun channelNames :: "json list \<Rightarrow> string list" where
  "channelNames [] = []"
| "channelNames (JStr s # cs) = s # channelNames cs"
| "channelNames (_ # cs) = channelNames cs"

text \<open>The channel list and the actual value of a channel-tagged row.\<close>

definition channelList :: "ViewRow \<Rightarrow> string list" where
  "channelList row =
     (case Value row of JArr (JArr channels # _) \<Rightarrow> channelNames channels | _ \<Rightarrow> [])"

definition actualValue :: "ViewRow \<Rightarrow> json" where
  "actualValue row = (case Value row of JArr (_ # v # _) \<Rightarrow> v | _ \<Rightarrow> JNull)"

text \<open>
  A channel-tagged row: its value is an array that starts with a list of channel names
  followed by the actual value, and its document, when there is one, is a JSON object.
\<close>

definition taggedRow :: "ViewRow \<Rightarrow> bool" where
  "taggedRow row =
     ((case Value row of
         JArr (JArr channels # _ # _) \<Rightarrow> list_all isStr channels
       | _ \<Rightarrow> False) \<and>
      (case Doc row of None \<Rightarrow> True | Some (JObj _) \<Rightarrow> True | Some _ \<Rightarrow> False))"

definition docWithoutSync :: "json \<Rightarrow> json" where
  "docWithoutSync doc = (case doc of JObj m \<Rightarrow> JObj (mapDelete ''_sync'' m) | _ \<Rightarrow> doc)"

definition redactRow :: "ViewRow \<Rightarrow> ViewRow" where
  "redactRow row =
     \<lparr>ID = ID row, Key = Key row, Value = actualValue row,
      Doc = map_option docWithoutSync (Doc row)\<rparr>"

text \<open>
  A restricted user is an end user whose channel set lacks the wildcard; an
  administrator (no user) has no channel set.
\<close>

definition restricted :: "User option \<Rightarrow> bool" where
  "restricted usr = (case usr of None \<Rightarrow> False | Some u \<Rightarrow> ''*'' \<notin> InheritedChannels u)"

definition authorized :: "User option \<Rightarrow> string set" where
  "authorized usr = (case usr of None \<Rightarrow> {} | Some u \<Rightarrow> InheritedChannels u)"

definition sharesChannel :: "string set \<Rightarrow> string list \<Rightarrow> bool" where
  "sharesChannel visible names = (set names \<inter> visible \<noteq> {} \<or> ''*'' \<in> set names)"




text \<open>The design document asks for raw views.\<close>

definition rawRequested :: "DesignDoc \<Rightarrow> bool" where
  "rawRequested ddoc = (case Options ddoc of None \<Rightarrow> False | Some opts \<Rightarrow> Raw opts)"

text \<open>
  A row of a query with the channel projection: the field \<^verbatim>\<open>_channels\<close> is absent, null
  or a mapping. Its live channels are the keys of that mapping whose status is null.
\<close>

definition projectedRow :: "N1qlRow \<Rightarrow> bool" where
  "projectedRow row =
     (case mapIndex row ''_channels'' of JNull \<Rightarrow> True | JObj _ \<Rightarrow> True | _ \<Rightarrow> False)"

definition liveChannels :: "N1qlRow \<Rightarrow> string list" where
  "liveChannels row =
     (case mapIndex row ''_channels'' of
        JObj m \<Rightarrow> filter (\<lambda>k. map_of m k = Some JNull) (map fst m)
      | _ \<Rightarrow> [])"

section \<open>Example data\<close>

text \<open>
  Rows of a view \<^verbatim>\<open>byType\<close>, a user who may see the channel \<^verbatim>\<open>chat\<close>, a bucket that
  keeps design documents in a list, and a query service with a few prepared statements.
  They are the concrete inputs at which the properties are evaluated.
\<close>

definition chatRow :: ViewRow where
  "chatRow =
     \<lparr>ID = ''doc1'', Key = JStr ''msg'',
      Value = JArr [JArr [JStr ''chat'', JStr ''admin''], JObj [(''type'', JStr ''msg'')]],
      Doc = Some (JObj [(''_sync'', JObj [(''rev'', JStr ''1-x'')]), (''type'', JStr ''msg'')])\<rparr>"

definition newsRow :: ViewRow where
  "newsRow =
     \<lparr>ID = ''doc2'', Key = JStr ''post'', Value = JArr [JArr [JStr ''news''], JNum 7],
      Doc = None\<rparr>"

definition starRow :: ViewRow where
  "starRow =
     \<lparr>ID = ''doc3'', Key = JStr ''post'', Value = JArr [JArr [JStr ''*''], JBool True],
      Doc = None\<rparr>"

definition byTypeResult :: ViewResult where
  "byTypeResult = \<lparr>TotalRows = 3, Rows = [chatRow, newsRow, starRow]\<rparr>"

definition countResult :: ViewResult where
  "countResult =
     \<lparr>TotalRows = 1, Rows = [\<lparr>ID = [], Key = JNull, Value = JNum 3, Doc = None\<rparr>]\<rparr>"

definition chatUser :: User where
  "chatUser = \<lparr>InheritedChannels = {''chat''}\<rparr>"

definition byTypeViews :: ViewMap where
  "byTypeViews =
     [(''all'', \<lparr>Map = ''function(doc) {emit(doc.type, null);}'', Reduce = []\<rparr>),
      (''count'', \<lparr>Map = ''function(doc) {emit(doc.type, 1);}'', Reduce = ''_count''\<rparr>)]"

definition heap0 :: mapHeap where
  "heap0 = (\<lambda>r. if r = 1 then byTypeViews else [])"

definition byTypeDDoc :: DesignDoc where
  "byTypeDDoc = \<lparr>Language = ''javascript'', Views = Some 1, Options = None\<rparr>"

definition rawDDoc :: DesignDoc where
  "rawDDoc = byTypeDDoc\<lparr>Options := Some \<lparr>Raw = True\<rparr>\<rparr>"

text \<open>The JSON text that the example bucket keeps of a design document.\<close>

definition viewJson :: "ViewDef \<Rightarrow> json" where
  "viewJson view = JObj [(''map'', JStr (Map view)), (''reduce'', JStr (Reduce view))]"

definition ddocJson :: "DesignDoc \<Rightarrow> mapHeap \<Rightarrow> json" where
  "ddocJson ddoc h =
     JObj [(''language'', JStr (Language ddoc)),
           (''views'',
            JObj (map (\<lambda>(name, view). (name, viewJson view))
                    (case Views ddoc of None \<Rightarrow> [] | Some r \<Rightarrow> h r))),
           (''options'',
            (case Options ddoc of None \<Rightarrow> JNull | Some opts \<Rightarrow> JObj [(''raw'', JBool (Raw opts))]))]"

definition memBucket :: "(string \<times> json) list Bucket" where
  "memBucket =
     \<lparr>GetDDoc = (\<lambda>name s. case map_of s name of None \<Rightarrow> Inl ''not_found'' | Some d \<Rightarrow> Inr d),
      PutDDoc = (\<lambda>name d h s. (None, (name, ddocJson d h) # s)),
      DeleteDDoc = (\<lambda>name s. (None, filter (\<lambda>e. fst e \<noteq> name) s)),
      View = (\<lambda>name view opts s.
                if map_of s name = None then Inl ''not_found''
                else if view = ''count'' then Inr countResult
                else Inr byTypeResult)\<rparr>"

definition store0 :: "(string \<times> json) list" where
  "store0 = [(''sync_gateway'', JObj [(''language'', JStr ''javascript'')]),
             (''byType'', JObj [(''language'', JStr ''javascript'')])]"

definition chatDocRow :: N1qlRow where
  "chatDocRow =
     [(''_channels'', JObj [(''chat'', JNull), (''old'', JBool True)]), (''type'', JStr ''msg'')]"

definition oldDocRow :: N1qlRow where
  "oldDocRow =
     [(''_channels'', JObj [(''chat'', JBool True), (''news'', JNull)]), (''type'', JStr ''post'')]"

definition starDocRow :: N1qlRow where
  "starDocRow = [(''_channels'', JObj [(''*'', JNull)]), (''type'', JStr ''note'')]"

definition bareDocRow :: N1qlRow where
  "bareDocRow = [(''type'', JStr ''draft'')]"

definition n1qlConn :: N1QLConn where
  "n1qlConn =
     \<lparr>ExecuteN1qlQuery = (\<lambda>query.
        if query = Some ''stmt_channels'' then (Some [chatDocRow, oldDocRow, bareDocRow], None)
        else if query = Some ''stmt_star'' then (Some [starDocRow], None)
        else if query = Some ''stmt_types'' then (Some [chatDocRow, oldDocRow], None)
        else if query = Some ''stmt_late'' then (Some [], Some ''timeout'')
        else (None, Some ''syntax error''))\<rparr>"

definition adminDb :: "(string \<times> json) list Database" where
  "adminDb =
     \<lparr>user = None, Bucket = memBucket,
      N1QLQueries =
        [(''byChannel'', ''SELECT _sync.channels as _channels, type FROM bucket''),
         (''starred'', ''SELECT _sync.channels as _channels, type FROM bucket WHERE starred''),
         (''types'', ''SELECT type FROM bucket''),
         (''late'', ''SELECT _sync.channels as _channels, type FROM slow''),
         (''broken'', ''SELECT _sync.channels as _channels, FROM'')],
      N1QLStatements =
        [(''byChannel'', ''stmt_channels''), (''starred'', ''stmt_star''),
         (''types'', ''stmt_types''), (''late'', ''stmt_late''), (''broken'', ''stmt_broken'')],
      N1QLConnection = n1qlConn\<rparr>"

definition chatDb :: "(string \<times> json) list Database" where
  "chatDb = adminDb\<lparr>user := Some chatUser\<rparr>"

lemmas example_defs =
  adminDb_def chatDb_def memBucket_def store0_def byTypeDDoc_def rawDDoc_def n1qlConn_def
  byTypeViews_def heap0_def viewJson_def ddocJson_def
  chatUser_def countResult_def byTypeResult_def chatRow_def newsRow_def starRow_def
  chatDocRow_def oldDocRow_def starDocRow_def bareDocRow_def

lemmas code_defs =
  QueryDesignDoc_def GetDesignDoc_def PutDesignDoc_def DeleteDesignDoc_def checkDDocAccess_def
  isInternalDDoc_def HasPrefix_def mapIndex_def filterViewResult_def filterViewRow_def
  stripSyncProperty_def mapDelete_def Contains_def N1QLQuery_def queryText_def
  channelProjection_def docChannelsList_def

section \<open>Properties of the result filter\<close>

text \<open>
  On a list of strings \<open>channelsIntersect\<close> does not panic, and its answer depends only
  on the set of the names: the order in which a Go map yields its keys is immaterial.
\<close>

lemma channelsIntersect_strings:
  "list_all isStr cs \<Longrightarrow>
   channelsIntersect vis cs = Inr (sharesChannel vis (channelNames cs))"
  by (induction cs) (auto simp: isStr_def sharesChannel_def Contains_def split: json.splits)

lemma filterViewRow_tagged:
  assumes "taggedRow row"
  shows "filterViewRow cc vis row =
    Inr (if \<not> cc \<or> sharesChannel vis (channelList row) then Some (redactRow row) else None)"
  using assms
  by (auto simp: taggedRow_def filterViewRow_def channelList_def actualValue_def redactRow_def
      stripSyncProperty_def docWithoutSync_def channelsIntersect_strings
      split: json.splits list.splits option.splits)

lemma filterViewRows_tagged:
  "list_all taggedRow rows \<Longrightarrow>
   filterViewRows False cc vis rows out =
     Inr (out @ map redactRow (filter (\<lambda>row. \<not> cc \<or> sharesChannel vis (channelList row)) rows))"
  by (induction rows arbitrary: out) (auto simp: filterViewRow_tagged)

lemma redactRow_no_sync:
  "taggedRow row \<Longrightarrow> Doc (redactRow row) = Some (JObj m) \<Longrightarrow> ''_sync'' \<notin> fst ` set m"
  by (auto simp: taggedRow_def redactRow_def docWithoutSync_def mapDelete_def
      split: option.splits json.splits)





text \<open>The only errors of the filter are run-time panics on rows that are not well formed.\<close>

lemma channelsIntersect_error:
  "channelsIntersect vis cs = Inl e \<Longrightarrow> e = Panic TypeAssertion"
  by (induction cs) (auto split: json.splits if_splits)






text \<open>
  C1. A query without \<open>reduce\<close> over channel-tagged rows returns normally. For a
  restricted user a row is in the output exactly when its channel list has a channel of
  the user's channel set or has the wildcard; for an unrestricted caller (no user, or a
  channel set with the wildcard) every row is in the output.
\<close>

theorem filterViewResult_retains_visible_rows:
  assumes "list_all taggedRow (Rows input)"
  shows "\<exists>result. filterViewResult input usr False = Inr result \<and>
     Rows result =
       (if restricted usr
        then map redactRow
               (filter (\<lambda>row. set (channelList row) \<inter> authorized usr \<noteq> {} \<or>
                              ''*'' \<in> set (channelList row)) (Rows input))
        else map redactRow (Rows input))"
  using assms
  by (cases usr)
     (auto simp: filterViewResult_def filterViewRows_tagged restricted_def authorized_def
        sharesChannel_def Contains_def Let_def)

theorem filterViewResult_retains_visible_rows_witness:
  "list_all taggedRow (Rows byTypeResult) \<and>
   (\<exists>result. filterViewResult byTypeResult (Some chatUser) False = Inr result \<and>
      Rows result =
        [\<lparr>ID = ''doc1'', Key = JStr ''msg'', Value = JObj [(''type'', JStr ''msg'')],
          Doc = Some (JObj [(''type'', JStr ''msg'')])\<rparr>,
         \<lparr>ID = ''doc3'', Key = JStr ''post'', Value = JBool True, Doc = None\<rparr>])"
proof -
  have wf: "list_all taggedRow (Rows byTypeResult)"
    by (simp add: byTypeResult_def chatRow_def newsRow_def starRow_def taggedRow_def isStr_def)
  show ?thesis
    using wf filterViewResult_retains_visible_rows [OF wf, of "Some chatUser"]
    by (simp add: byTypeResult_def chatRow_def newsRow_def starRow_def chatUser_def
        restricted_def authorized_def channelList_def redactRow_def actualValue_def
        docWithoutSync_def mapDelete_def)
qed

text \<open>
  C7. A query without \<open>reduce\<close> over channel-tagged rows returns the total row count of
  its input, and its rows are rows of the input in their order, each rewritten to keep
  the id and the key, to carry the actual value in place of the tagged pair, and to hold
  the document without its \<^verbatim>\<open>_sync\<close> entry: no document of the output has the key
  \<^verbatim>\<open>_sync\<close>.
\<close>

theorem filterViewResult_rewrites_rows:
  assumes "list_all taggedRow (Rows input)"
  shows "\<exists>result keep. filterViewResult input usr False = Inr result \<and>
     TotalRows result = TotalRows input \<and>
     Rows result =
       map (\<lambda>row. \<lparr>ID = ID row, Key = Key row, Value = actualValue row,
                   Doc = map_option docWithoutSync (Doc row)\<rparr>)
         (filter keep (Rows input)) \<and>
     (\<forall>r \<in> set (Rows result). \<forall>m. Doc r = Some (JObj m) \<longrightarrow> ''_sync'' \<notin> fst ` set m)"
proof -
  define cc where
    "cc = (case usr of None \<Rightarrow> False | Some u \<Rightarrow> \<not> Contains (InheritedChannels u) ''*'')"
  define vis where "vis = (case usr of None \<Rightarrow> {} | Some u \<Rightarrow> InheritedChannels u)"
  define keep where "keep = (\<lambda>row. \<not> cc \<or> sharesChannel vis (channelList row))"
  define result where
    "result = \<lparr>TotalRows = TotalRows input, Rows = map redactRow (filter keep (Rows input))\<rparr>"
  have run: "filterViewResult input usr False = Inr result"
    using assms
    by (simp add: filterViewResult_def filterViewRows_tagged cc_def vis_def keep_def result_def)
  have shape: "Rows result =
       map (\<lambda>row. \<lparr>ID = ID row, Key = Key row, Value = actualValue row,
                   Doc = map_option docWithoutSync (Doc row)\<rparr>)
         (filter keep (Rows input))"
    by (simp add: result_def redactRow_def)
  have clean: "''_sync'' \<notin> fst ` set m"
    if "r \<in> set (Rows result)" "Doc r = Some (JObj m)" for r m
  proof -
    from that(1) obtain row where "row \<in> set (Rows input)" "r = redactRow row"
      by (auto simp: result_def)
    moreover from this assms have "taggedRow row"
      by (simp add: list_all_iff)
    ultimately show ?thesis
      using that(2) redactRow_no_sync by blast
  qed
  have "TotalRows result = TotalRows input"
    by (simp add: result_def)
  with run shape clean show ?thesis
    by blast
qed

theorem filterViewResult_rewrites_rows_witness:
  "list_all taggedRow (Rows byTypeResult) \<and>
   filterViewResult byTypeResult (Some chatUser) False =
     Inr \<lparr>TotalRows = 3,
          Rows =
            [\<lparr>ID = ''doc1'', Key = JStr ''msg'', Value = JObj [(''type'', JStr ''msg'')],
              Doc = Some (JObj [(''type'', JStr ''msg'')])\<rparr>,
             \<lparr>ID = ''doc3'', Key = JStr ''post'', Value = JBool True, Doc = None\<rparr>]\<rparr> \<and>
   (\<exists>result keep. filterViewResult byTypeResult (Some chatUser) False = Inr result \<and>
      TotalRows result = 3 \<and>
      Rows result =
        map (\<lambda>row. \<lparr>ID = ID row, Key = Key row, Value = actualValue row,
                   Doc = map_option docWithoutSync (Doc row)\<rparr>)
          (filter keep [chatRow, newsRow, starRow]))"
proof -
  have wf: "list_all taggedRow (Rows byTypeResult)"
    by (simp add: byTypeResult_def chatRow_def newsRow_def starRow_def taggedRow_def isStr_def)
  from filterViewResult_rewrites_rows [OF wf, of "Some chatUser"] obtain result keep where
    "filterViewResult byTypeResult (Some chatUser) False = Inr result"
    "TotalRows result = TotalRows byTypeResult"
    "Rows result =
       map (\<lambda>row. \<lparr>ID = ID row, Key = Key row, Value = actualValue row,
                   Doc = map_option docWithoutSync (Doc row)\<rparr>)
         (filter keep (Rows byTypeResult))"
    by blast
  then have abstract:
    "filterViewResult byTypeResult (Some chatUser) False = Inr result \<and>
      TotalRows result = 3 \<and>
      Rows result =
        map (\<lambda>row. \<lparr>ID = ID row, Key = Key row, Value = actualValue row,
                   Doc = map_option docWithoutSync (Doc row)\<rparr>)
          (filter keep [chatRow, newsRow, starRow])"
    by (simp add: byTypeResult_def)
  have concrete: "filterViewResult byTypeResult (Some chatUser) False =
     Inr \<lparr>TotalRows = 3,
          Rows =
            [\<lparr>ID = ''doc1'', Key = JStr ''msg'', Value = JObj [(''type'', JStr ''msg'')],
              Doc = Some (JObj [(''type'', JStr ''msg'')])\<rparr>,
             \<lparr>ID = ''doc3'', Key = JStr ''post'', Value = JBool True, Doc = None\<rparr>]\<rparr>"
    by (simp add: example_defs code_defs)
  have "\<exists>result keep.
      filterViewResult byTypeResult (Some chatUser) False = Inr result \<and>
      TotalRows result = 3 \<and>
      Rows result =
        map (\<lambda>row. \<lparr>ID = ID row, Key = Key row, Value = actualValue row,
                   Doc = map_option docWithoutSync (Doc row)\<rparr>)
          (filter keep [chatRow, newsRow, starRow])"
    by (rule exI [of _ result], rule exI [of _ keep]) (rule abstract)
  with wf concrete show ?thesis
    by (intro conjI)
qed

section \<open>Properties of the access gate\<close>

text \<open>
  C3, as the claim states it, fails: an administrator who reads the internal design
  document \<^verbatim>\<open>sync_gateway\<close>, which the bucket holds, is refused.
\<close>

theorem admin_internal_ddoc_forbidden:
  "user adminDb = None \<and>
   GetDDoc (Bucket adminDb) ''sync_gateway'' store0 = Inr (JObj [(''language'', JStr ''javascript'')]) \<and>
   GetDesignDoc adminDb ''sync_gateway'' store0 = Inl forbidden"
  by (simp add: example_defs code_defs)

text \<open>
  C3, amended. \<open>GetDesignDoc\<close>, \<open>PutDesignDoc\<close> and \<open>DeleteDesignDoc\<close> hand the call to
  the bucket when the caller is an administrator and the name is not internal. With a
  user attached, or for an internal name, they fail with Forbidden and leave the bucket
  as it was.
\<close>

theorem management_gate:
  "(user db = None \<and> \<not> isInternalDDoc n \<longrightarrow>
      GetDesignDoc db n s = map_sum StoreError id (GetDDoc (Bucket db) n s) \<and>
      DeleteDesignDoc db n s =
        map_prod (map_option StoreError) id (DeleteDDoc (Bucket db) n s) \<and>
      (putError (PutDesignDoc db n ddoc h s), bucketAfter (PutDesignDoc db n ddoc h s)) =
        map_prod (map_option StoreError) id
          (PutDDoc (Bucket db) n ddoc (heapAfter (PutDesignDoc db n ddoc h s)) s)) \<and>
   (user db \<noteq> None \<or> isInternalDDoc n \<longrightarrow>
      GetDesignDoc db n s = Inl forbidden \<and>
      DeleteDesignDoc db n s = (Some forbidden, s) \<and>
      putError (PutDesignDoc db n ddoc h s) = Some forbidden \<and>
      bucketAfter (PutDesignDoc db n ddoc h s) = s)"
proof (intro conjI impI)
  assume ok: "user db = None \<and> \<not> isInternalDDoc n"
  then have pass: "checkDDocAccess db n = None"
    by (simp add: checkDDocAccess_def)
  show "GetDesignDoc db n s = map_sum StoreError id (GetDDoc (Bucket db) n s)"
    by (simp add: GetDesignDoc_def pass split: sum.splits)
  show "DeleteDesignDoc db n s =
      map_prod (map_option StoreError) id (DeleteDDoc (Bucket db) n s)"
    by (simp add: DeleteDesignDoc_def pass split: prod.splits)
  show "(putError (PutDesignDoc db n ddoc h s), bucketAfter (PutDesignDoc db n ddoc h s)) =
      map_prod (map_option StoreError) id
        (PutDDoc (Bucket db) n ddoc (heapAfter (PutDesignDoc db n ddoc h s)) s)"
    by (simp add: PutDesignDoc_def pass Let_def split: prod.splits)
next
  assume "user db \<noteq> None \<or> isInternalDDoc n"
  then have deny: "checkDDocAccess db n = Some forbidden"
    by (auto simp: checkDDocAccess_def)
  show "GetDesignDoc db n s = Inl forbidden"
    by (simp add: GetDesignDoc_def deny)
  show "DeleteDesignDoc db n s = (Some forbidden, s)"
    by (simp add: DeleteDesignDoc_def deny)
  show "putError (PutDesignDoc db n ddoc h s) = Some forbidden"
    by (simp add: PutDesignDoc_def deny Let_def)
  show "bucketAfter (PutDesignDoc db n ddoc h s) = s"
    by (simp add: PutDesignDoc_def deny Let_def)
qed

theorem management_gate_witness:
  "user adminDb = None \<and> \<not> isInternalDDoc ''byType'' \<and>
   GetDesignDoc adminDb ''byType'' store0 = Inr (JObj [(''language'', JStr ''javascript'')]) \<and>
   DeleteDesignDoc adminDb ''byType'' store0 =
     (None, [(''sync_gateway'', JObj [(''language'', JStr ''javascript'')])]) \<and>
   isInternalDDoc ''sync_gateway'' \<and>
   DeleteDesignDoc adminDb ''sync_gateway'' store0 = (Some forbidden, store0) \<and>
   user chatDb \<noteq> None \<and>
   GetDesignDoc chatDb ''byType'' store0 = Inl forbidden \<and>
   DeleteDesignDoc chatDb ''byType'' store0 = (Some forbidden, store0) \<and>
   putError (PutDesignDoc chatDb ''byType'' byTypeDDoc heap0 store0) = Some forbidden \<and>
   bucketAfter (PutDesignDoc chatDb ''byType'' byTypeDDoc heap0 store0) = store0"
  using management_gate [of adminDb "''byType''" store0 byTypeDDoc heap0]
    management_gate [of adminDb "''sync_gateway''" store0 byTypeDDoc heap0]
    management_gate [of chatDb "''byType''" store0 byTypeDDoc heap0]
  by (simp add: adminDb_def chatDb_def memBucket_def store0_def isInternalDDoc_def HasPrefix_def)






text \<open>
  With a user attached and \<open>reduce\<close> set, a query of a view that is not internal
  succeeds with the zero-valued result, whatever the bucket returned.
\<close>

lemma QueryDesignDoc_reduce_user:
  assumes "user db = Some u" and "\<not> isInternalDDoc n"
    and "mapIndex opts ''reduce'' = JBool True"
    and "View (Bucket db) n v opts s = Inr res"
  shows "QueryDesignDoc db n v opts s = Inr \<lparr>TotalRows = 0, Rows = []\<rparr>"
  using assms by (simp add: QueryDesignDoc_def filterViewResult_def)

text \<open>
  C2. The code at a failing input: the user \<open>chatUser\<close> queries the view \<^verbatim>\<open>count\<close> of
  \<^verbatim>\<open>byType\<close> with \<open>reduce\<close>. The bucket returns one aggregate row; the query returns
  success with no rows and a total of zero, not an error. The administrator gets the
  aggregate row.
\<close>

theorem QueryDesignDoc_reduce_restricted_succeeds_empty:
  "View (Bucket chatDb) ''byType'' ''count'' [(''reduce'', JBool True)] store0 = Inr countResult \<and>
   QueryDesignDoc chatDb ''byType'' ''count'' [(''reduce'', JBool True)] store0 =
     Inr \<lparr>TotalRows = 0, Rows = []\<rparr> \<and>
   QueryDesignDoc adminDb ''byType'' ''count'' [(''reduce'', JBool True)] store0 =
     Inr countResult"
  by (simp add: example_defs code_defs)

section \<open>Properties of \<open>PutDesignDoc\<close>\<close>

lemma wrapViews_apply:
  "wrapViews ddoc h =
     (\<lambda>r. if Views ddoc = Some r
          then map (\<lambda>(name, view). (name, view\<lparr>Map := wrapperPrefix @ Map view @ wrapperSuffix\<rparr>))
                 (h r)
          else h r)"
  by (auto simp: wrapViews_def wrapView_def fun_eq_iff split: option.splits)

text \<open>
  C8. When the access check passes, the bucket is handed the given document. If the
  document asks for raw views, the heap of maps is as it was: no map function is changed.
  Otherwise, in the map of its views, the map function of every view has been replaced by
  the wrapper around its original text.
\<close>

theorem PutDesignDoc_stores_wrapped_unless_raw:
  assumes "user db = None" and "\<not> isInternalDDoc n"
  shows "(putError (PutDesignDoc db n ddoc h s), bucketAfter (PutDesignDoc db n ddoc h s)) =
     map_prod (map_option StoreError) id
       (PutDDoc (Bucket db) n ddoc
          (if rawRequested ddoc then h
           else (\<lambda>r. if Views ddoc = Some r
                    then map (\<lambda>(name, view).
                                (name, view\<lparr>Map := wrapperPrefix @ Map view @ wrapperSuffix\<rparr>))
                           (h r)
                    else h r)) s)"
proof -
  from assms have pass: "checkDDocAccess db n = None"
    by (simp add: checkDDocAccess_def)
  show ?thesis
  proof (cases "rawRequested ddoc")
    case True
    then show ?thesis
      by (simp add: PutDesignDoc_def pass Let_def rawRequested_def
          split: prod.splits option.splits)
  next
    case False
    then have "(case Options ddoc of None \<Rightarrow> True | Some opts \<Rightarrow> \<not> Raw opts)"
      by (simp add: rawRequested_def split: option.splits)
    with False show ?thesis
      by (simp add: PutDesignDoc_def pass Let_def wrapViews_apply split: prod.splits)
  qed
qed

theorem PutDesignDoc_stores_wrapped_unless_raw_witness:
  "user adminDb = None \<and> \<not> isInternalDDoc ''byType'' \<and>
   \<not> rawRequested byTypeDDoc \<and>
   putError (PutDesignDoc adminDb ''byType'' byTypeDDoc heap0 []) = None \<and>
   bucketAfter (PutDesignDoc adminDb ''byType'' byTypeDDoc heap0 []) =
     [(''byType'',
       JObj [(''language'', JStr ''javascript''),
             (''views'',
              JObj [(''all'',
                     JObj [(''map'',
                            JStr (wrapperPrefix @ ''function(doc) {emit(doc.type, null);}'' @
                                  wrapperSuffix)),
                           (''reduce'', JStr [])]),
                    (''count'',
                     JObj [(''map'',
                            JStr (wrapperPrefix @ ''function(doc) {emit(doc.type, 1);}'' @
                                  wrapperSuffix)),
                           (''reduce'', JStr ''_count'')])]),
             (''options'', JNull)])] \<and>
   rawRequested rawDDoc \<and>
   bucketAfter (PutDesignDoc adminDb ''byType'' rawDDoc heap0 []) =
     [(''byType'', ddocJson rawDDoc heap0)]"
proof -
  have adm: "user adminDb = None"
    by (simp add: adminDb_def)
  have ext: "\<not> isInternalDDoc ''byType''"
    by (simp add: isInternalDDoc_def HasPrefix_def)
  have raw: "\<not> rawRequested byTypeDDoc" "rawRequested rawDDoc"
    by (simp_all add: rawRequested_def byTypeDDoc_def rawDDoc_def)
  from PutDesignDoc_stores_wrapped_unless_raw [OF adm ext, of byTypeDDoc heap0 "[]"]
    PutDesignDoc_stores_wrapped_unless_raw [OF adm ext, of rawDDoc heap0 "[]"] adm ext raw
  show ?thesis
    by (simp add: adminDb_def memBucket_def byTypeDDoc_def heap0_def byTypeViews_def
        ddocJson_def viewJson_def)
qed

text \<open>
  C10. For a document that does not ask for raw views, the map of its views, which the
  caller's document shares, holds the wrapped map functions after the call, whatever the
  access check says, and no other map has changed; when the access check fails, the call
  returns Forbidden and the bucket is as it was.
\<close>

theorem PutDesignDoc_wraps_before_access_check:
  assumes "\<not> rawRequested ddoc" and "Views ddoc = Some r"
  shows "heapAfter (PutDesignDoc db n ddoc h s) r =
       map (\<lambda>(name, view). (name, view\<lparr>Map := wrapperPrefix @ Map view @ wrapperSuffix\<rparr>))
         (h r) \<and>
     (\<forall>r'. r' \<noteq> r \<longrightarrow> heapAfter (PutDesignDoc db n ddoc h s) r' = h r') \<and>
     (checkDDocAccess db n \<noteq> None \<longrightarrow>
        putError (PutDesignDoc db n ddoc h s) = Some forbidden \<and>
        bucketAfter (PutDesignDoc db n ddoc h s) = s)"
proof -
  from assms(1) have wrap: "(case Options ddoc of None \<Rightarrow> True | Some opts \<Rightarrow> \<not> Raw opts)"
    by (simp add: rawRequested_def split: option.splits)
  have after: "heapAfter (PutDesignDoc db n ddoc h s) = wrapViews ddoc h"
    using wrap by (simp add: PutDesignDoc_def Let_def split: option.splits prod.splits)
  have denied: "putError (PutDesignDoc db n ddoc h s) = Some forbidden \<and>
      bucketAfter (PutDesignDoc db n ddoc h s) = s" if "checkDDocAccess db n \<noteq> None"
    using that
    by (auto simp: PutDesignDoc_def Let_def checkDDocAccess_def split: if_splits)
  from after assms(2) denied show ?thesis
    by (simp add: wrapViews_apply)
qed

theorem PutDesignDoc_wraps_before_access_check_witness:
  "\<not> rawRequested byTypeDDoc \<and> Views byTypeDDoc = Some 1 \<and>
   checkDDocAccess chatDb ''byType'' \<noteq> None \<and>
   putError (PutDesignDoc chatDb ''byType'' byTypeDDoc heap0 store0) = Some forbidden \<and>
   bucketAfter (PutDesignDoc chatDb ''byType'' byTypeDDoc heap0 store0) = store0 \<and>
   heapAfter (PutDesignDoc chatDb ''byType'' byTypeDDoc heap0 store0) 1 =
     [(''all'',
       \<lparr>Map = wrapperPrefix @ ''function(doc) {emit(doc.type, null);}'' @ wrapperSuffix,
        Reduce = []\<rparr>),
      (''count'',
       \<lparr>Map = wrapperPrefix @ ''function(doc) {emit(doc.type, 1);}'' @ wrapperSuffix,
        Reduce = ''_count''\<rparr>)]"
proof -
  have raw: "\<not> rawRequested byTypeDDoc"
    by (simp add: rawRequested_def byTypeDDoc_def)
  have ref: "Views byTypeDDoc = Some 1"
    by (simp add: byTypeDDoc_def)
  have deny: "checkDDocAccess chatDb ''byType'' \<noteq> None"
    by (simp add: checkDDocAccess_def chatDb_def adminDb_def)
  from PutDesignDoc_wraps_before_access_check [OF raw ref, of chatDb "''byType''" heap0 store0]
    raw ref deny
  show ?thesis
    by (simp add: heap0_def byTypeViews_def)
qed

section \<open>Properties of \<open>N1QLQuery\<close>\<close>

lemma scanRows_unchecked:
  "scanRows False vis rows out = Inr (out @ rows)"
  by (induction rows arbitrary: out) simp_all

lemma channelNames_map_JStr:
  "channelNames (map JStr ks) = ks"
  by (induction ks) simp_all

lemma docChannelsList_strings:
  "list_all isStr (docChannelsList m)"
  by (simp add: docChannelsList_def list_all_iff isStr_def)

lemma mapIndex_null_iff:
  "k \<in> fst ` set m \<Longrightarrow> (mapIndex m k = JNull) = (map_of m k = Some JNull)"
proof -
  assume "k \<in> fst ` set m"
  then have "map_of m k \<noteq> None"
    by (simp add: map_of_eq_None_iff)
  then show ?thesis
    by (auto simp: mapIndex_def)
qed

lemma docChannelsList_names:
  "channelNames (docChannelsList m) = filter (\<lambda>k. map_of m k = Some JNull) (map fst m)"
proof -
  have "filter (\<lambda>k. mapIndex m k = JNull) (map fst m) =
        filter (\<lambda>k. map_of m k = Some JNull) (map fst m)"
    by (rule filter_cong) (simp_all add: mapIndex_null_iff)
  then show ?thesis
    by (simp add: docChannelsList_def channelNames_map_JStr)
qed

lemma scanRows_checked:
  "list_all projectedRow rows \<Longrightarrow>
   scanRows True vis rows out =
     Inr (out @ filter (\<lambda>row. sharesChannel vis (liveChannels row)) rows)"
proof (induction rows arbitrary: out)
  case Nil
  then show ?case by simp
next
  case (Cons row rows)
  then have rest: "\<And>out. scanRows True vis rows out =
      Inr (out @ filter (\<lambda>row. sharesChannel vis (liveChannels row)) rows)"
    by simp
  from Cons.prems have "projectedRow row" by simp
  then show ?case
    by (cases "mapIndex row ''_channels''")
       (simp_all add: projectedRow_def liveChannels_def rest sharesChannel_def
          channelsIntersect_strings [OF docChannelsList_strings] docChannelsList_names)
qed

lemma scanRows_error:
  "scanRows cc vis rows out = Inl e \<Longrightarrow> e = Panic TypeAssertion"
  by (induction rows arbitrary: out)
     (auto split: if_splits json.splits sum.splits dest: channelsIntersect_error)

text \<open>
  C5. For a registered query whose text does not start with the channel projection: a
  restricted user gets Forbidden; for an unrestricted caller the result holds the rows of
  the cursor that the query service returned, all of them, in their order.
\<close>

theorem N1QLQuery_without_projection:
  assumes "queryText (N1QLQueries db) q \<noteq> []"
    and "\<not> HasPrefix (queryText (N1QLQueries db) q) channelProjection"
  shows "(restricted (user db) \<longrightarrow> N1QLQuery db q opts = Inl forbidden) \<and>
         (\<not> restricted (user db) \<longrightarrow>
            (\<forall>rows. fst (ExecuteN1qlQuery (N1QLConnection db) (map_of (N1QLStatements db) q))
                      = Some rows
               \<longrightarrow> N1QLQuery db q opts = Inr \<lparr>N1QLRows = rows\<rparr>))"
  using assms
  by (auto simp: N1QLQuery_def Let_def restricted_def Contains_def scanRows_unchecked
      split: option.splits)

theorem N1QLQuery_without_projection_witness:
  "queryText (N1QLQueries chatDb) ''types'' \<noteq> [] \<and>
   \<not> HasPrefix (queryText (N1QLQueries chatDb) ''types'') channelProjection \<and>
   restricted (user chatDb) \<and>
   N1QLQuery chatDb ''types'' [] = Inl forbidden \<and>
   \<not> restricted (user adminDb) \<and>
   N1QLQuery adminDb ''types'' [] = Inr \<lparr>N1QLRows = [chatDocRow, oldDocRow]\<rparr>"
proof -
  have reg: "queryText (N1QLQueries chatDb) ''types'' \<noteq> []"
    "queryText (N1QLQueries adminDb) ''types'' \<noteq> []"
    by (simp_all add: chatDb_def adminDb_def queryText_def)
  have plain: "\<not> HasPrefix (queryText (N1QLQueries chatDb) ''types'') channelProjection"
    "\<not> HasPrefix (queryText (N1QLQueries adminDb) ''types'') channelProjection"
    by (simp_all add: chatDb_def adminDb_def queryText_def HasPrefix_def channelProjection_def)
  have usr: "restricted (user chatDb)" "\<not> restricted (user adminDb)"
    by (simp_all add: chatDb_def adminDb_def chatUser_def restricted_def)
  have cur: "fst (ExecuteN1qlQuery (N1QLConnection adminDb)
                    (map_of (N1QLStatements adminDb) ''types''))
      = Some [chatDocRow, oldDocRow]"
    by (simp add: adminDb_def n1qlConn_def)
  from N1QLQuery_without_projection [OF reg(1) plain(1), of "[]"] usr(1)
  have a: "N1QLQuery chatDb ''types'' [] = Inl forbidden"
    by blast
  from N1QLQuery_without_projection [OF reg(2) plain(2), of "[]"] usr(2) cur
  have b: "N1QLQuery adminDb ''types'' [] = Inr \<lparr>N1QLRows = [chatDocRow, oldDocRow]\<rparr>"
    by blast
  from reg(1) plain(1) usr a b show ?thesis
    by blast
qed

text \<open>
  C6, as the claim states it, fails: the only live channel of \<open>starDocRow\<close> is the
  wildcard, which the channel set of \<open>chatUser\<close> does not hold, and the row is retained.
\<close>

theorem N1QLQuery_wildcard_channel_retained:
  "user chatDb = Some chatUser \<and> InheritedChannels chatUser = {''chat''} \<and>
   HasPrefix (queryText (N1QLQueries chatDb) ''starred'') channelProjection \<and>
   fst (ExecuteN1qlQuery (N1QLConnection chatDb) (map_of (N1QLStatements chatDb) ''starred''))
     = Some [starDocRow] \<and>
   liveChannels starDocRow = [''*''] \<and>
   set (liveChannels starDocRow) \<inter> InheritedChannels chatUser = {} \<and>
   N1QLQuery chatDb ''starred'' [] = Inr \<lparr>N1QLRows = [starDocRow]\<rparr>"
  by (simp add: example_defs code_defs liveChannels_def)

text \<open>
  C6, amended. For a query whose text starts with the channel projection, a restricted
  user, and rows whose \<^verbatim>\<open>_channels\<close> field is absent, null or a mapping: the result holds,
  in the order of the cursor, exactly the rows whose live channels have a channel of the
  user's channel set or have the wildcard.
\<close>

theorem N1QLQuery_with_projection:
  assumes "HasPrefix (queryText (N1QLQueries db) q) channelProjection"
    and "user db = Some u" and "''*'' \<notin> InheritedChannels u"
    and "fst (ExecuteN1qlQuery (N1QLConnection db) (map_of (N1QLStatements db) q)) = Some rows"
    and "list_all projectedRow rows"
  shows "N1QLQuery db q opts =
     Inr \<lparr>N1QLRows =
            filter (\<lambda>row. set (liveChannels row) \<inter> InheritedChannels u \<noteq> {} \<or>
                         ''*'' \<in> set (liveChannels row)) rows\<rparr>"
proof -
  from assms(1) have "queryText (N1QLQueries db) q \<noteq> []"
    by (auto simp: HasPrefix_def channelProjection_def)
  with assms show ?thesis
    by (simp add: N1QLQuery_def Let_def Contains_def scanRows_checked sharesChannel_def)
qed

theorem N1QLQuery_with_projection_witness:
  "HasPrefix (queryText (N1QLQueries chatDb) ''byChannel'') channelProjection \<and>
   user chatDb = Some chatUser \<and> ''*'' \<notin> InheritedChannels chatUser \<and>
   fst (ExecuteN1qlQuery (N1QLConnection chatDb) (map_of (N1QLStatements chatDb) ''byChannel''))
     = Some [chatDocRow, oldDocRow, bareDocRow] \<and>
   list_all projectedRow [chatDocRow, oldDocRow, bareDocRow] \<and>
   N1QLQuery chatDb ''byChannel'' [] = Inr \<lparr>N1QLRows = [chatDocRow]\<rparr>"
proof -
  have pre: "HasPrefix (queryText (N1QLQueries chatDb) ''byChannel'') channelProjection"
    by (simp add: chatDb_def adminDb_def queryText_def HasPrefix_def channelProjection_def)
  have usr: "user chatDb = Some chatUser" "''*'' \<notin> InheritedChannels chatUser"
    by (simp_all add: chatDb_def adminDb_def chatUser_def)
  have cur: "fst (ExecuteN1qlQuery (N1QLConnection chatDb)
                    (map_of (N1QLStatements chatDb) ''byChannel''))
     = Some [chatDocRow, oldDocRow, bareDocRow]"
    by (simp add: chatDb_def adminDb_def n1qlConn_def)
  have wf: "list_all projectedRow [chatDocRow, oldDocRow, bareDocRow]"
    by (simp add: projectedRow_def mapIndex_def chatDocRow_def oldDocRow_def bareDocRow_def)
  have "N1QLQuery chatDb ''byChannel'' [] = Inr \<lparr>N1QLRows = [chatDocRow]\<rparr>"
    using N1QLQuery_with_projection [OF pre usr cur wf, of "[]"]
    by (simp add: liveChannels_def mapIndex_def chatDocRow_def oldDocRow_def bareDocRow_def
        chatUser_def)
  with pre usr cur wf show ?thesis
    by blast
qed

text \<open>
  Whatever the query service answers, \<open>N1QLQuery\<close> never returns its error; a failure
  of the bucket, in contrast, is what \<open>QueryDesignDoc\<close> returns (lemma
  \<open>QueryDesignDoc_store_error\<close>).
\<close>

lemma N1QLQuery_never_store_error:
  "N1QLQuery db q opts \<noteq> Inl (StoreError e)"
  by (auto simp: N1QLQuery_def Let_def forbidden_def split: option.splits sum.splits
      dest: scanRows_error)

text \<open>
  C9. The code at two failing inputs. For the query \<^verbatim>\<open>late\<close> the query service answers
  with an empty cursor and the error \<^verbatim>\<open>timeout\<close>: \<open>N1QLQuery\<close> returns success with no
  rows. For the query \<^verbatim>\<open>broken\<close> it answers with a nil cursor and an error: \<open>N1QLQuery\<close>
  panics on the nil cursor. In neither case is the error of the query service returned.
\<close>

theorem N1QLQuery_discards_execute_error:
  "ExecuteN1qlQuery (N1QLConnection adminDb) (map_of (N1QLStatements adminDb) ''late'')
     = (Some [], Some ''timeout'') \<and>
   N1QLQuery adminDb ''late'' [] = Inr \<lparr>N1QLRows = []\<rparr> \<and>
   ExecuteN1qlQuery (N1QLConnection adminDb) (map_of (N1QLStatements adminDb) ''broken'')
     = (None, Some ''syntax error'') \<and>
   N1QLQuery adminDb ''broken'' [] = Inl (Panic NilDereference)"
  by (simp add: example_defs code_defs)

end
